theory Spec2Isabelle
  imports Main
begin

section \<open>Text primitives\<close>

text \<open>
  The program builds one Python string and prints it. A string is a \<open>char list\<close>; the
  line structure of the literal is kept by writing it as a list of lines that
  \<open>join_lines\<close> glues together with the newline character.
\<close>

definition newline :: char where
  "newline = CHR 0x0A"

fun join_lines :: "string list \<Rightarrow> string" where
  "join_lines [] = []"
| "join_lines [l] = l"
| "join_lines (l # l' # ls) = l @ newline # join_lines (l' # ls)"

text \<open>Python's \<open>s.split('\n')\<close>: the lines of a text, an empty text having one empty line.\<close>

fun split_lines :: "string \<Rightarrow> string list" where
  "split_lines [] = [[]]"
| "split_lines (c # cs) =
     (if c = newline then [] # split_lines cs
      else (case split_lines cs of
              [] \<Rightarrow> [[c]]
            | l # ls \<Rightarrow> (c # l) # ls))"

definition plain_line :: "string \<Rightarrow> bool" where
  \<comment> \<open>A text of one line: it holds no newline.\<close>
  "plain_line l = list_all (\<lambda>c. c \<noteq> newline) l"

text \<open>Python's \<open>str\<close> on an \<open>int\<close>: decimal digits, a minus sign for a negative number.\<close>

definition digit_char :: "nat \<Rightarrow> char" where
  "digit_char d = ''0123456789'' ! (d mod 10)"

function str_nat :: "nat \<Rightarrow> string" where
  "str_nat n = (if n < 10 then [digit_char n] else str_nat (n div 10) @ [digit_char (n mod 10)])"
  by pat_completeness auto
termination
  by (relation "measure (\<lambda>n. n)") auto

declare str_nat.simps [simp del]

definition str_int :: "int \<Rightarrow> string" where
  "str_int i = (if i < 0 then CHR ''-'' # str_nat (nat (- i)) else str_nat (nat i))"

section \<open>The script template\<close>

text \<open>
  \<open>mesmy_cli\<close> formats one f-string, \<open>script\<close> (mesmy.py lines 25 to 238). Its fixed text
  is given below line by line, exactly as the literal has it: the first line follows the
  opening quotes directly, every later line carries the four blanks of the Python block
  it is written in, and the text ends with the four blanks that stand before the closing
  quotes.
\<close>

definition header_lines :: "string list" where
  \<comment> \<open>mesmy.py lines 25-35: the text before the first replacement field\<close>
  \<open>header_lines =
    [''#!/bin/bash'',
     '''',
     ''    # An equilibration workflow.'',
     ''    # Designed for "standard" protein or protein/ligand systems'',
     ''    # in explicit solvent. Not optimised for membrane protein systems.'',
     ''    #'',
     ''    # Developed from scripts provided by the Hughes lab at the University'',
     ''    # of Montana.'',
     ''    #'',
     '''',
     ''    # You may wish to modify some of the parameters below.'']\<close>

definition defaults_lines :: "string list" where
  \<comment> \<open>mesmy.py lines 39-42\<close>
  \<open>defaults_lines =
    [''    T="310.0" # target temperature in K'',
     ''    PMEMD="pmemd.cuda" # name of your MD executable (e.g. may be "pmemd.MPI")'',
     '''',
     ''    ### DO NOT MODIFY BELOW THIS LINE UNLESS YOU KNOW WHAT YOU ARE DOING ###'']\<close>

definition step_input_lines :: "string list" where
  \<comment> \<open>mesmy.py lines 43-152: the nine engine input decks\<close>
  \<open>step_input_lines =
    [''    # 1K step energy minimization, strong restraints on heavy atoms, no shake'',
     ''    cat > step1.in <<EOF'',
     ''    Min with strong restraints on heavy atoms, no shake'',
     ''    &cntrl'',
     ''    imin = 1, ncyc = 50, maxcyc = 1000,'',
     ''    ntpr = 50,'',
     ''    ntr = 1, restraintmask = ':1-$solute & !@H=', restraint_wt = 5.0,'',
     ''    &end'',
     ''    EOF'',
     '''',
     ''    # NVT MD with strong restraints on heavy atoms, shake, dt=.001, 15 ps'',
     ''    cat > step2.in <<EOF'',
     ''    NVT MD with strong restraints on heavy atoms, shake dt 0.001 15 ps'',
     ''    &cntrl'',
     ''    imin = 0, nstlim = 30000, dt=0.001,'',
     ''    ntpr = 50, ntwr = 500,'',
     ''    iwrap = 1,'',
     ''    ntc = 2, ntf = 2,'',
     ''    ntt = 3, gamma_ln = 5, temp0 = $T, tempi = $T,'',
     ''    ntr = 1, restraintmask = ':1-$solute & !@H=', restraint_wt = 5.0,'',
     ''    &end'',
     ''    EOF'',
     '''',
     ''    # Energy minimization with relaxed restraints on heavy atoms, no shake'',
     ''    cat > step3.in <<EOF'',
     ''    Min with relaxed restraints on heavy atoms'',
     ''    &cntrl'',
     ''    imin = 1, ncyc = 50, maxcyc = 1000,'',
     ''    ntpr = 50,'',
     ''    ntr = 1, restraintmask = ':1-$solute & !@H=', restraint_wt = 2.0,'',
     ''    &end'',
     ''    EOF'',
     '''',
     ''    # Energy minimization with minimal restraints on heavy atoms, no shake'',
     ''    cat > step4.in <<EOF'',
     ''    Min with minimal restraints on heavy atoms'',
     ''    &cntrl'',
     ''    imin = 1, ncyc = 50, maxcyc = 1000,'',
     ''    ntpr = 50,'',
     ''    ntr = 1, restraintmask = ':1-$solute & !@H=', restraint_wt = 0.1,'',
     ''    &end'',
     ''    EOF'',
     '''',
     ''    # Energy minimization with no restraints, no shake'',
     ''    cat > step5.in <<EOF'',
     ''    Min with no restraints'',
     ''    &cntrl'',
     ''    imin = 1, ncyc = 50, maxcyc = 1000,'',
     ''    ntpr = 50,'',
     ''    &end'',
     ''    EOF'',
     '''',
     ''    # NPT MD with shake and low restraints on heavy atoms, 20 ps dt=.002'',
     ''    cat > step6.in <<EOF'',
     ''    NPT MD with shake and low restraints on heavy atoms, 20 ps dt=.002'',
     ''    &cntrl'',
     ''    imin = 0, nstlim = 10000, dt = 0.002,'',
     ''    ntwx = 1000, ntpr = 50, ntwr = 500,'',
     ''    iwrap = 1,'',
     ''    ntc = 2, ntf = 2, ntb = 2,'',
     ''    ntt = 3, gamma_ln = 5, temp0 = $T, tempi = $T,'',
     ''    ntp = 1, taup = 1.0,'',
     ''    ntr = 1, restraintmask = ':1-$solute & !@H=', restraint_wt = 1.0,'',
     ''    &end'',
     ''    EOF'',
     '''',
     ''    # NPT MD with shake and minimal restraints on heavy atoms'',
     ''    cat > step7.in <<EOF'',
     ''    NPT MD with minimal restraints on heavy atoms, 20 ps dt=.002'',
     ''    &cntrl'',
     ''    imin = 0, nstlim = 10000, dt=0.002,'',
     ''    ntx = 5, irest = 1,'',
     ''    ntwx = 1000, ntpr = 50, ntwr = 500,'',
     ''    iwrap = 1,'',
     ''    ntc = 2, ntf = 2, ntb = 2,'',
     ''    ntt = 3, gamma_ln = 5, temp0 = $T, tempi = $T,'',
     ''    ntp = 1, taup = 1.0,'',
     ''    ntr = 1, restraintmask = ':1-$solute & !@H=', restraint_wt = 0.5,'',
     ''    &end'',
     ''    EOF'',
     '''',
     ''    # NPT MD, shake and minimal restraints on backbone atoms, dt=0.002, 20 ps'',
     ''    cat > step8.in <<EOF'',
     ''    NPT MD with minimal restraints on backbone atoms, 20 ps dt=.002'',
     ''    &cntrl'',
     ''    imin = 0, nstlim = 10000, dt=0.002,'',
     ''    ntx = 5, irest = 1,'',
     ''    ntwx = 1000, ntpr = 50, ntwr = 500,'',
     ''    iwrap = 1,'',
     ''    ntc = 2, ntf = 2, ntb = 2,'',
     ''    ntt = 3, gamma_ln = 5, temp0 = $T, tempi = $T,'',
     ''    ntp = 1, taup = 1.0,'',
     ''    ntr = 1, restraintmask = ":1-$solute@H,N,CA,HA,C,O", restraint_wt = 0.5,'',
     ''    &end'',
     ''    EOF'',
     '''',
     ''    # NPT MD with shake and no restraints, dt=0.002, 200 ps'',
     ''    cat > step9.in <<EOF'',
     ''    NPT MD no restraints, dt=0.002, 200 ps'',
     ''    &cntrl'',
     ''    imin = 0, nstlim = 10000, dt=0.002,'',
     ''    ntx = 5, irest = 1,'',
     ''    ntwx = 1000, ntpr = 50, ntwr = 500,'',
     ''    iwrap = 1,'',
     ''    ntc = 2, ntf = 2, ntb = 2,'',
     ''    ntt = 3, gamma_ln = 5, temp0 = $T, tempi = $T,'',
     ''    ntp = 1, taup = 1.0,'',
     ''    &end'',
     ''    EOF'',
     '''']\<close>

definition driver_lines :: "string list" where
  \<comment> \<open>mesmy.py lines 153-238; a backslash at the end of a source line (176, 177, 214) joins it with the next one, as Python does inside a string literal\<close>
  \<open>driver_lines =
    [''    START="`date +%s.%N`"'',
     '''',
     ''    # Minimization Phase - reference coords are updated each run'',
     ''    for RUN in step1 step2 step3 step4 step5 ; do'',
     ''    echo "------------------------"'',
     ''    echo "Minimization phase: $RUN"'',
     ''    echo "------------------------"'',
     ''    if [[ ! -f $RUN.out ]]; then'',
     ''        echo "File -- $RUN.out -- does not exists. Running job..."'',
     ''        runme=1'',
     ''    else'',
     ''        grep -q 'Total wall time' $RUN.out'',
     ''        retval=$?'',
     ''        if [ $retval -ne 0 ]; then'',
     ''        echo "$RUN did not complete last time. Trying again..."'',
     ''        runme=1'',
     ''        else'',
     ''            echo "$RUN has already completed.  Checking the next step."'',
     ''            runme=0'',
     ''        fi'',
     ''    fi'',
     '''',
     ''    if [ $runme -eq 1 ]; then'',
     ''        $PMEMD -O -i $RUN.in -p $prmtop_file -c $inpcrd_file         -ref $inpcrd_file -o $RUN.out -x $RUN.nc -r $RUN.ncrst             -inf $RUN.mdinfo'',
     ''        grep -q 'Total wall time' $RUN.out'',
     ''        retval=$?'',
     ''        if [ $retval -ne 0 ]; then'',
     ''            echo "Error - job failed at this step."'',
     ''        exit $retval'',
     ''        fi'',
     ''    fi'',
     '''',
     ''    echo ""'',
     ''    inpcrd_file="$RUN.ncrst"'',
     ''    done'',
     '''',
     ''    # Equilibration phase: reference coords are last coords from minimize phase'',
     ''    REF=$inpcrd_file'',
     ''    for RUN in step6 step7 step8 step9 ; do'',
     '''',
     ''    echo "------------------------"'',
     ''    echo "Equilibration phase: $RUN"'',
     ''    echo "------------------------"'',
     ''    if [[ ! -f $RUN.out ]]; then'',
     ''        echo "File -- $RUN.out -- does not exists. Running job..."'',
     ''        runme=1'',
     ''    else'',
     ''        grep -q 'Total wall time' $RUN.out'',
     ''        retval=$?'',
     ''        if [ $retval -ne 0 ]; then'',
     ''        echo "$RUN did not complete last time. Trying again..."'',
     ''        runme=1'',
     ''        else'',
     ''            echo "$RUN has already completed.  Checking the next step."'',
     ''            runme=0'',
     ''        fi'',
     ''    fi'',
     '''',
     ''    if [ $runme -eq 1 ]; then'',
     ''        $PMEMD -O -i $RUN.in -p $prmtop_file -c $inpcrd_file        -ref $REF -o $RUN.out -x $RUN.nc -r $RUN.ncrst -inf $RUN.mdinfo'',
     ''        grep -q 'Total wall time' $RUN.out'',
     ''        retval=$?'',
     ''        if [ $retval -ne 0 ]; then'',
     ''            echo "Error - job failed at this step."'',
     ''        exit $retval'',
     ''        fi'',
     ''    fi'',
     '''',
     ''    echo ""'',
     ''    inpcrd_file="$RUN.ncrst"'',
     ''    done'',
     '''',
     ''    # Reset the time in the restart file to zero:'',
     ''    sed -i 's/0.3000000E+02/0.0000000E+00/g' step9.ncrst'',
     '''',
     ''    STOP="`date +%s.%N`"'',
     ''    # The divide by 1 in the line below is to overcome a bug in bc...'',
     ''    TIMING=`echo "scale=1; ($STOP - $START) / 1;" | bc`'',
     ''    echo "Total run time: $TIMING seconds."'',
     ''    echo ""'',
     '''',
     ''    exit 0'',
     ''    '']\<close>

text \<open>
  The f-string has three replacement fields, \<open>{args.prmtop}\<close>, \<open>{args.inpcrd}\<close> and
  \<open>{nres}\<close>, on its lines 36 to 38; a string is inserted as it is and the integer through
  \<open>str\<close>.
\<close>

definition script_lines :: "string \<Rightarrow> string \<Rightarrow> int \<Rightarrow> string list" where
  \<open>script_lines topology_path coordinate_path nres =
     header_lines @
     [''    prmtop_file="'' @ topology_path @ ''"'',
      ''    inpcrd_file="'' @ coordinate_path @ ''"'',
      ''    solute='' @ str_int nres @ '' # number of residues in solute''] @
     defaults_lines @ step_input_lines @ driver_lines\<close>

definition script :: "string \<Rightarrow> string \<Rightarrow> int \<Rightarrow> string" where
  "script topology_path coordinate_path nres =
     join_lines (script_lines topology_path coordinate_path nres)"

section \<open>Reading the script as text\<close>

text \<open>Python's \<open>needle in text\<close> on strings, and \<open>str.lstrip(' ')\<close>.\<close>

definition starts_with :: "string \<Rightarrow> string \<Rightarrow> bool" where
  "starts_with pre s = (take (length pre) s = pre)"

definition ends_with :: "string \<Rightarrow> string \<Rightarrow> bool" where
  "ends_with suf s = (length suf \<le> length s \<and> drop (length s - length suf) s = suf)"


definition strip_blanks :: "string \<Rightarrow> string" where
  "strip_blanks l = dropWhile (\<lambda>c. c = CHR '' '') l"

text \<open>
  The shell's reading of the here-documents of a script, as far as this script uses
  them. A command line \<open>cat > FILE <<EOF\<close> (blanks before a command do not matter)
  opens a here-document; its body runs to the first later line that is the delimiter
  \<open>EOF\<close> and nothing else, and to the end of the script when there is no such line (the
  operator \<open><<\<close> strips nothing from the lines it reads).
\<close>

record heredoc =
  target :: string
  body :: "string list"
  closed :: bool

definition heredoc_target :: "string \<Rightarrow> string option" where
  "heredoc_target l =
     (let cmd = strip_blanks l in
      if starts_with ''cat > '' cmd \<and> ends_with '' <<EOF'' cmd \<and> 12 \<le> length cmd
      then Some (take (length cmd - 12) (drop 6 cmd))
      else None)"

fun scan_heredocs :: "(string \<times> string list) option \<Rightarrow> string list \<Rightarrow> heredoc list" where
  "scan_heredocs None [] = []"
| "scan_heredocs (Some (f, seen)) [] = [\<lparr>target = f, body = rev seen, closed = False\<rparr>]"
| "scan_heredocs None (l # ls) =
     (case heredoc_target l of
        Some f \<Rightarrow> scan_heredocs (Some (f, [])) ls
      | None \<Rightarrow> scan_heredocs None ls)"
| "scan_heredocs (Some (f, seen)) (l # ls) =
     (if l = ''EOF'' then \<lparr>target = f, body = rev seen, closed = True\<rparr> # scan_heredocs None ls
      else scan_heredocs (Some (f, l # seen)) ls)"

section \<open>The structural model\<close>

text \<open>
  \<open>mdt.load\<close>, \<open>topology.select\<close>, \<open>atom_slice\<close> and \<open>n_residues\<close> belong to the mdtraj
  library, which is not part of the program text. The data model and the three
  operations below follow sections 3 and 4.1 of the specification: a model is an ordered
  sequence of atoms, each carrying the index of its residue, and an ordered sequence of
  residues, each with its name and sequence index.
\<close>

record atom =
  atom_name :: string
  residue_index :: nat

record residue =
  residue_name :: string
  sequence_index :: nat

record structural_model =
  atoms :: "atom list"
  residues :: "residue list"

definition residue_of :: "structural_model \<Rightarrow> atom \<Rightarrow> residue option" where
  \<comment> \<open>Modelled from the spec: the residue an atom belongs to, found by its index.\<close>
  "residue_of t a = find (\<lambda>r. sequence_index r = residue_index a) (residues t)"

definition has_atom :: "atom list \<Rightarrow> residue \<Rightarrow> bool" where
  \<comment> \<open>Modelled from the spec: one of the atoms belongs to the residue.\<close>
  "has_atom as r = list_ex (\<lambda>a. residue_index a = sequence_index r) as"

definition valid_model :: "structural_model \<Rightarrow> bool" where
  \<comment> \<open>Modelled from the spec: the invariant of StructuralModel (residue indices are
      contiguous from 1 to N in file order, every atom belongs to exactly one residue),
      and that a residue of a loaded file has at least one atom.\<close>
  "valid_model t \<longleftrightarrow>
     map sequence_index (residues t) = [1 ..< Suc (length (residues t))] \<and>
     list_all (\<lambda>a. residue_of t a \<noteq> None) (atoms t) \<and>
     list_all (has_atom (atoms t)) (residues t)"

definition n_residues :: "structural_model \<Rightarrow> nat" where
  \<comment> \<open>Modelled from the spec: mdtraj's \<open>n_residues\<close>, the number of Residue records.\<close>
  "n_residues t = length (residues t)"

definition n_water :: "(string \<Rightarrow> bool) \<Rightarrow> structural_model \<Rightarrow> nat" where
  \<comment> \<open>The number of residues the classifier calls water (the W of the specification).\<close>
  "n_water is_water t = length (filter (\<lambda>r. is_water (residue_name r)) (residues t))"

definition keeps :: "(string \<Rightarrow> bool) \<Rightarrow> structural_model \<Rightarrow> atom \<Rightarrow> bool" where
  \<comment> \<open>Modelled from the spec: the classification policy of section 4.1, atom by atom. An atom
      is retained when the residue it belongs to is not water.\<close>
  "keeps is_water t a =
     (case residue_of t a of Some r \<Rightarrow> \<not> is_water (residue_name r) | None \<Rightarrow> False)"

definition select_not_water :: "(string \<Rightarrow> bool) \<Rightarrow> structural_model \<Rightarrow> nat list" where
  \<comment> \<open>Modelled from the spec: mdtraj's \<open>topology.select('not water')\<close>, the indices (from 0,
      in file order) of the atoms whose residue the name-based classifier \<open>is_water\<close> does
      not call water. The classifier is a parameter, as section 9 asks.\<close>
  "select_not_water is_water t =
     filter (\<lambda>i. keeps is_water t (atoms t ! i)) [0 ..< length (atoms t)]"

definition atom_slice :: "structural_model \<Rightarrow> nat list \<Rightarrow> structural_model" where
  \<comment> \<open>Modelled from the spec: mdtraj's \<open>atom_slice\<close>. The atoms at the given indices are
      retained in original order; the residues of the result are the distinct residues
      these atoms belong to.\<close>
  "atom_slice t atom_indices =
     (let kept = map (\<lambda>i. atoms t ! i) (filter (\<lambda>i. i \<in> set atom_indices) [0 ..< length (atoms t)])
      in \<lparr>atoms = kept, residues = filter (has_atom kept) (residues t)\<rparr>)"

section \<open>The command line\<close>

definition version :: string where
  \<comment> \<open>mesmy.py line 5: \<open>__version__\<close>.\<close>
  "version = ''1.0.0''"

record args =
  inpcrd :: string
  prmtop :: string

datatype parse_error =
  Expected_one_argument string
| Missing_required "string list"
| Unrecognized_arguments "string list"

datatype parse_outcome =
  Namespace args
| Exit_version
| Exit_help
| Usage_error parse_error

definition looks_like_option :: "string \<Rightarrow> bool" where
  "looks_like_option w = (1 < length w \<and> starts_with ''-'' w)"

text \<open>
  \<open>ArgumentParser.parse_args\<close> belongs to Python's argparse library. The parser that
  mesmy.py lines 9 to 17 build has the options \<open>-i/--inpcrd\<close> and \<open>-p/--prmtop\<close> (one
  value each, required), \<open>--version\<close> (action \<open>version\<close>) and the \<open>-h/--help\<close> that
  argparse adds by itself.
\<close>

fun consume :: "string option \<Rightarrow> string option \<Rightarrow> string list \<Rightarrow> string list \<Rightarrow> parse_outcome" where
  \<comment> \<open>Modelled from the spec: the parser's pass over the words of the command line, with
      the values of \<open>--inpcrd\<close> and \<open>--prmtop\<close> seen so far and the words no option took.\<close>
  "consume i p extras [] =
     (case (i, p) of
        (Some iv, Some pv) \<Rightarrow>
          (if extras = [] then Namespace \<lparr>inpcrd = iv, prmtop = pv\<rparr>
           else Usage_error (Unrecognized_arguments extras))
      | _ \<Rightarrow>
          Usage_error (Missing_required
            ((if i = None then [''-i/--inpcrd''] else []) @
             (if p = None then [''-p/--prmtop''] else []))))"
| "consume i p extras (w # ws) =
     (if w = ''--version'' then Exit_version
      else if w = ''-h'' \<or> w = ''--help'' then Exit_help
      else if w = ''-i'' \<or> w = ''--inpcrd'' then
        (case ws of
           [] \<Rightarrow> Usage_error (Expected_one_argument ''-i/--inpcrd'')
         | v # ws' \<Rightarrow>
             if looks_like_option v then Usage_error (Expected_one_argument ''-i/--inpcrd'')
             else consume (Some v) p extras ws')
      else if w = ''-p'' \<or> w = ''--prmtop'' then
        (case ws of
           [] \<Rightarrow> Usage_error (Expected_one_argument ''-p/--prmtop'')
         | v # ws' \<Rightarrow>
             if looks_like_option v then Usage_error (Expected_one_argument ''-p/--prmtop'')
             else consume i (Some v) extras ws')
      else consume i p (extras @ [w]) ws)"

definition parse_args :: "string list \<Rightarrow> parse_outcome" where
  \<comment> \<open>Modelled from the spec: argparse's \<open>parse_args\<close> for the parser of mesmy.py, after
      the table of section 6 and the error taxonomy of section 7. The words of the command
      line are read from left to right; \<open>--version\<close> and \<open>-h/--help\<close> leave at once;
      \<open>-i/--inpcrd\<close> and \<open>-p/--prmtop\<close> take the next word as their value; a required
      option that was never given is a usage error, reported before any unrecognised
      word. Options are recognised when written out in full: argparse's abbreviated
      options, \<open>--option=value\<close>, values attached to a short option and the \<open>--\<close> marker
      are outside this model, which \<open>full_words\<close> makes explicit.\<close>
  "parse_args argv = consume None None [] argv"

definition option_strings :: "string list" where
  "option_strings = [''-h'', ''--help'', ''-i'', ''--inpcrd'', ''-p'', ''--prmtop'', ''--version'']"

definition full_words :: "string list \<Rightarrow> bool" where
  \<comment> \<open>Every word that looks like an option is one of the parser's option strings.\<close>
  "full_words argv = list_all (\<lambda>w. \<not> looks_like_option w \<or> w \<in> set option_strings) argv"

section \<open>The program\<close>

datatype load_error = FormatError | MismatchError

record env =
  load :: "string \<Rightarrow> string \<Rightarrow> load_error + structural_model"
  is_water :: "string \<Rightarrow> bool"

datatype printed =
  Stdout_text string
| Stdout_help
| Stderr_usage parse_error
| Stderr_traceback load_error

record run =
  out :: printed
  exit_status :: nat
  loads :: "(string \<times> string) list"

text \<open>
  \<open>mesmy_cli\<close> (mesmy.py lines 8 to 239). What lies outside the program is a parameter:
  \<open>load env\<close> stands for \<open>mdt.load(args.inpcrd, top=args.prmtop)\<close> on the files present,
  \<open>is_water env\<close> for the library's water classifier. \<open>loads\<close> records the calls of the
  structure loader. An exit of the argument parser ends the run before line 21; an
  exception of the loader is not caught, so Python ends with status 1; \<open>print\<close> adds a
  newline to the script.
\<close>

definition mesmy_cli :: "env \<Rightarrow> string list \<Rightarrow> run" where
  "mesmy_cli e argv =
     (case parse_args argv of
        Exit_version \<Rightarrow> \<lparr>out = Stdout_text (version @ [newline]), exit_status = 0, loads = []\<rparr>
      | Exit_help \<Rightarrow> \<lparr>out = Stdout_help, exit_status = 0, loads = []\<rparr>
      | Usage_error err \<Rightarrow> \<lparr>out = Stderr_usage err, exit_status = 2, loads = []\<rparr>
      | Namespace a \<Rightarrow>
          (case load e (inpcrd a) (prmtop a) of
             Inl err \<Rightarrow>
               \<lparr>out = Stderr_traceback err, exit_status = 1, loads = [(inpcrd a, prmtop a)]\<rparr>
           | Inr t \<Rightarrow>
               (let t_solute = atom_slice t (select_not_water (is_water e) t);
                    nres = n_residues t_solute
                in \<lparr>out = Stdout_text (script (prmtop a) (inpcrd a) (int nres) @ [newline]),
                     exit_status = 0,
                     loads = [(inpcrd a, prmtop a)]\<rparr>)))"

section \<open>Example inputs\<close>

text \<open>Two small systems with two solute residues each, and the worlds that hold them.\<close>

definition model_a :: structural_model where
  "model_a =
     \<lparr>atoms =
        [\<lparr>atom_name = ''N'', residue_index = 1\<rparr>,
         \<lparr>atom_name = ''CA'', residue_index = 1\<rparr>,
         \<lparr>atom_name = ''O'', residue_index = 2\<rparr>,
         \<lparr>atom_name = ''Na+'', residue_index = 3\<rparr>],
      residues =
        [\<lparr>residue_name = ''ALA'', sequence_index = 1\<rparr>,
         \<lparr>residue_name = ''WAT'', sequence_index = 2\<rparr>,
         \<lparr>residue_name = ''Na+'', sequence_index = 3\<rparr>]\<rparr>"

definition model_b :: structural_model where
  "model_b =
     \<lparr>atoms =
        [\<lparr>atom_name = ''CA'', residue_index = 1\<rparr>,
         \<lparr>atom_name = ''C1'', residue_index = 2\<rparr>,
         \<lparr>atom_name = ''O'', residue_index = 3\<rparr>,
         \<lparr>atom_name = ''O'', residue_index = 4\<rparr>],
      residues =
        [\<lparr>residue_name = ''GLY'', sequence_index = 1\<rparr>,
         \<lparr>residue_name = ''LIG'', sequence_index = 2\<rparr>,
         \<lparr>residue_name = ''WAT'', sequence_index = 3\<rparr>,
         \<lparr>residue_name = ''WAT'', sequence_index = 4\<rparr>]\<rparr>"

definition named_wat :: "string \<Rightarrow> bool" where
  "named_wat name = (name = ''WAT'')"

definition world_a :: env where
  "world_a = \<lparr>load = (\<lambda>crd top. Inr model_a), is_water = named_wat\<rparr>"

definition world_b :: env where
  "world_b = \<lparr>load = (\<lambda>crd top. Inr model_b), is_water = named_wat\<rparr>"

section \<open>Lines of a joined text\<close>

lemma join_lines_Cons: "ls \<noteq> [] \<Longrightarrow> join_lines (l # ls) = l @ newline # join_lines ls"
  by (cases ls) simp_all

lemma join_lines_append:
  "xs \<noteq> [] \<Longrightarrow> ys \<noteq> [] \<Longrightarrow> join_lines (xs @ ys) = join_lines xs @ newline # join_lines ys"
proof (induction xs rule: join_lines.induct)
  case 1
  then show ?case by simp
next
  case (2 l)
  then show ?case by (simp add: join_lines_Cons)
next
  case (3 l l' ls)
  then show ?case by simp
qed

lemma split_lines_not_Nil: "split_lines s \<noteq> []"
  by (induction s) (auto split: list.splits)

lemma split_lines_single: "newline \<notin> set l \<Longrightarrow> split_lines l = [l]"
  by (induction l) auto

lemma split_lines_line:
  "newline \<notin> set l \<Longrightarrow> split_lines (l @ newline # s) = l # split_lines s"
  by (induction l) auto

lemma split_lines_join_lines:
  "ls \<noteq> [] \<Longrightarrow> list_all (\<lambda>l. newline \<notin> set l) ls \<Longrightarrow> split_lines (join_lines ls) = ls"
proof (induction ls rule: join_lines.induct)
  case 1
  then show ?case by simp
next
  case (2 l)
  then show ?case by (simp add: split_lines_single)
next
  case (3 l l' ls)
  then show ?case by (simp add: split_lines_line)
qed

lemma plain_line_iff: "plain_line l \<longleftrightarrow> newline \<notin> set l"
  by (auto simp: plain_line_def list_all_iff)

lemma header_lines_plain: "list_all plain_line header_lines"
  by code_simp

lemma defaults_lines_plain: "list_all plain_line defaults_lines"
  by code_simp

lemma step_input_lines_plain: "list_all plain_line step_input_lines"
  by code_simp

lemma driver_lines_plain: "list_all plain_line driver_lines"
  by code_simp

lemma header_lines_not_Nil: "header_lines \<noteq> []"
  by (simp add: header_lines_def)

lemma defaults_lines_not_Nil: "defaults_lines \<noteq> []"
  by (simp add: defaults_lines_def)

lemma str_nat_plain: "newline \<notin> set (str_nat n)"
proof (induction n rule: str_nat.induct)
  case (1 n)
  have d: "digit_char k \<noteq> newline" for k
  proof -
    have "digit_char k \<in> set ''0123456789''"
      unfolding digit_char_def by (rule nth_mem) simp
    then show ?thesis
      by (auto simp: newline_def)
  qed
  have d': "newline \<noteq> digit_char k" for k
    using d [of k] by auto
  show ?case
    using 1 d' by (subst str_nat.simps) auto
qed

lemma str_int_plain: "newline \<notin> set (str_int n)"
  using str_nat_plain by (simp add: str_int_def newline_def)

lemma script_lines_not_Nil: "script_lines p c n \<noteq> []"
  by (simp add: script_lines_def)

lemma fixed_lines_plain:
  "list_all (\<lambda>l. newline \<notin> set l) header_lines"
  "list_all (\<lambda>l. newline \<notin> set l) defaults_lines"
  "list_all (\<lambda>l. newline \<notin> set l) step_input_lines"
  "list_all (\<lambda>l. newline \<notin> set l) driver_lines"
  using header_lines_plain defaults_lines_plain step_input_lines_plain driver_lines_plain
  by (simp_all add: list_all_iff plain_line_iff)

lemma split_lines_script:
  assumes "newline \<notin> set p" and "newline \<notin> set c"
  shows "split_lines (script p c n) = script_lines p c n"
proof -
  have "list_all (\<lambda>l. newline \<notin> set l) (script_lines p c n)"
    using assms fixed_lines_plain str_int_plain [of n]
    by (simp add: script_lines_def newline_def)
  then show ?thesis
    unfolding script_def by (rule split_lines_join_lines [OF script_lines_not_Nil])
qed

lemma split_lines_append:
  "split_lines (a @ newline # s) = split_lines a @ split_lines s"
proof (induction a)
  case Nil
  then show ?case by simp
next
  case (Cons x a)
  obtain l ls where "split_lines a = l # ls"
    using split_lines_not_Nil [of a] by (cases "split_lines a") auto
  with Cons show ?case by simp
qed

lemma script_text:
  \<open>script p c n =
     join_lines header_lines @
     newline # (''    prmtop_file="'' @ p @ ''"'') @
     newline # (''    inpcrd_file="'' @ c @ ''"'') @
     newline # (''    solute='' @ str_int n @ '' # number of residues in solute'') @
     newline # join_lines (defaults_lines @ step_input_lines @ driver_lines)\<close>
proof -
  have tail: "defaults_lines @ step_input_lines @ driver_lines \<noteq> []"
    using defaults_lines_not_Nil by simp
  show ?thesis
    unfolding script_def script_lines_def
    by (simp only: join_lines_append [OF header_lines_not_Nil] append_Cons append_Nil
        join_lines_Cons [OF tail] join_lines_Cons list.distinct not_False_eq_True append_assoc
        append_is_Nil_conv tail simp_thms)
qed









section \<open>The rendered script\<close>

text \<open>
  C2. For every topology path, coordinate path and residue count, the script is the
  fixed text of the template with the topology path, the coordinate path and the decimal
  residue count put in once each, at the three replacement fields of the
  \<open>prmtop_file=\<close>, \<open>inpcrd_file=\<close> and \<open>solute=\<close> lines; the text before, between and
  after them does not depend on the three values. When the paths hold no newline, the
  lines of the script are the lines of the template, with exactly these three depending
  on the values.
\<close>

theorem script_fills_three_fields:
  \<open>script p c n =
     join_lines header_lines @
     newline # (''    prmtop_file="'' @ p @ ''"'') @
     newline # (''    inpcrd_file="'' @ c @ ''"'') @
     newline # (''    solute='' @ str_int n @ '' # number of residues in solute'') @
     newline # join_lines (defaults_lines @ step_input_lines @ driver_lines)
   \<and> (newline \<notin> set p \<longrightarrow> newline \<notin> set c \<longrightarrow>
        split_lines (script p c n) =
          header_lines @
          [''    prmtop_file="'' @ p @ ''"'',
           ''    inpcrd_file="'' @ c @ ''"'',
           ''    solute='' @ str_int n @ '' # number of residues in solute''] @
          defaults_lines @ step_input_lines @ driver_lines)\<close>
proof (intro conjI impI)
  show \<open>script p c n =
     join_lines header_lines @
     newline # (''    prmtop_file="'' @ p @ ''"'') @
     newline # (''    inpcrd_file="'' @ c @ ''"'') @
     newline # (''    solute='' @ str_int n @ '' # number of residues in solute'') @
     newline # join_lines (defaults_lines @ step_input_lines @ driver_lines)\<close>
    by (rule script_text)
next
  assume "newline \<notin> set p" and "newline \<notin> set c"
  then have "split_lines (script p c n) = script_lines p c n"
    by (rule split_lines_script)
  then show \<open>split_lines (script p c n) =
          header_lines @
          [''    prmtop_file="'' @ p @ ''"'',
           ''    inpcrd_file="'' @ c @ ''"'',
           ''    solute='' @ str_int n @ '' # number of residues in solute''] @
          defaults_lines @ step_input_lines @ driver_lines\<close>
    by (simp only: script_lines_def)
qed

theorem script_fills_three_fields_witness:
  \<open>newline \<notin> set ''sys.prmtop'' \<and> newline \<notin> set ''sys.inpcrd'' \<and>
   split_lines (script ''sys.prmtop'' ''sys.inpcrd'' 50) =
     header_lines @
     [''    prmtop_file="sys.prmtop"'',
      ''    inpcrd_file="sys.inpcrd"'',
      ''    solute=50 # number of residues in solute''] @
     defaults_lines @ step_input_lines @ driver_lines\<close>
proof -
  have n: "str_int 50 = ''50''"
    by (simp add: str_int_def str_nat.simps digit_char_def)
  have p: "newline \<notin> set ''sys.prmtop''" and c: "newline \<notin> set ''sys.inpcrd''"
    by (simp_all add: newline_def)
  have \<open>split_lines (script ''sys.prmtop'' ''sys.inpcrd'' 50) =
          header_lines @
          [''    prmtop_file="'' @ ''sys.prmtop'' @ ''"'',
           ''    inpcrd_file="'' @ ''sys.inpcrd'' @ ''"'',
           ''    solute='' @ str_int 50 @ '' # number of residues in solute''] @
          defaults_lines @ step_input_lines @ driver_lines\<close>
    using script_fills_three_fields [of "''sys.prmtop''" "''sys.inpcrd''" 50] p c by blast
  then show ?thesis
    using p c by (simp add: n)
qed





lemma str_int_50: "str_int 50 = ''50''"
  by (simp add: str_int_def str_nat.simps digit_char_def)

lemma sys_paths_plain: "newline \<notin> set ''sys.prmtop''" "newline \<notin> set ''sys.inpcrd''"
  by (simp_all add: newline_def)

lemma line_of_text:
  "newline \<notin> set l \<Longrightarrow> l \<in> set (split_lines (a @ newline # l @ newline # b))"
  by (simp add: split_lines_append split_lines_single)



lemma no_bare_solute_line:
  "''solute=50 # number of residues in solute'' \<notin> set (script_lines ''sys.prmtop'' ''sys.inpcrd'' 50)"
  by code_simp

lemma here_documents_of_lines:
  "map (\<lambda>h. (target h, closed h))
     (scan_heredocs None (script_lines ''sys.prmtop'' ''sys.inpcrd'' 50)) = [(''step1.in'', False)]"
  by code_simp

lemma openers_of_lines:
  "List.map_filter heredoc_target (script_lines ''sys.prmtop'' ''sys.inpcrd'' 50) =
     [''step1.in'', ''step2.in'', ''step3.in'', ''step4.in'', ''step5.in'',
      ''step6.in'', ''step7.in'', ''step8.in'', ''step9.in'']"
  by code_simp

lemma delimiters_of_lines:
  "filter (\<lambda>l. l = ''EOF'') (script_lines ''sys.prmtop'' ''sys.inpcrd'' 50) = []"
  "length (filter (\<lambda>l. l = ''    EOF'') (script_lines ''sys.prmtop'' ''sys.inpcrd'' 50)) = 9"
  by code_simp+



text \<open>
  C5 as stated fails: with a residue count of 50 no line of the script is, byte for
  byte, \<open>solute=50 # number of residues in solute\<close>; the line begins with four blanks.
\<close>

theorem solute_line_counterexample:
  "''solute=50 # number of residues in solute'' \<notin>
     set (split_lines (script ''sys.prmtop'' ''sys.inpcrd'' 50))"
  unfolding split_lines_script [OF sys_paths_plain] by (rule no_bare_solute_line)

text \<open>
  C5, amended. For a residue count of 50 the script has a line that reads, after its
  leading blanks, exactly \<open>solute=50 # number of residues in solute\<close>.
\<close>

theorem solute_line_50:
  "list_ex (\<lambda>l. strip_blanks l = ''solute=50 # number of residues in solute'')
     (split_lines (script p c 50))"
proof -
  let ?l = "''    solute=50 # number of residues in solute''"
  have plain: "newline \<notin> set ?l"
    by (simp add: newline_def)
  define a where
    \<open>a = join_lines header_lines @
       newline # (''    prmtop_file="'' @ p @ ''"'') @
       newline # (''    inpcrd_file="'' @ c @ ''"'')\<close>
  define b where "b = join_lines (defaults_lines @ step_input_lines @ driver_lines)"
  have eq: "script p c 50 = a @ newline # ?l @ newline # b"
    unfolding a_def b_def by (simp add: script_text [of p c 50] str_int_50)
  have "?l \<in> set (split_lines (script p c 50))"
    unfolding eq by (rule line_of_text [OF plain])
  moreover have "strip_blanks ?l = ''solute=50 # number of residues in solute''"
    by (simp add: strip_blanks_def)
  ultimately show ?thesis
    unfolding list_ex_iff by blast
qed

text \<open>
  C6. The script for the paths \<open>sys.prmtop\<close>, \<open>sys.inpcrd\<close> and 50 solute residues, read
  as a shell reads it. It has nine lines that open a here-document, for \<open>step1.in\<close> to
  \<open>step9.in\<close> in this order, and nine lines \<open>EOF\<close> behind four blanks, but no line
  that is the delimiter \<open>EOF\<close> itself. So not one of the here-documents is closed: the
  first one, for \<open>step1.in\<close>, runs to the end of the script and takes the other eight
  openers and the driving loops into its body.
\<close>

theorem here_documents_not_closed:
  "map (\<lambda>h. (target h, closed h))
     (scan_heredocs None (split_lines (script ''sys.prmtop'' ''sys.inpcrd'' 50))) =
     [(''step1.in'', False)]
   \<and> List.map_filter heredoc_target (split_lines (script ''sys.prmtop'' ''sys.inpcrd'' 50)) =
     [''step1.in'', ''step2.in'', ''step3.in'', ''step4.in'', ''step5.in'',
      ''step6.in'', ''step7.in'', ''step8.in'', ''step9.in'']
   \<and> filter (\<lambda>l. l = ''EOF'') (split_lines (script ''sys.prmtop'' ''sys.inpcrd'' 50)) = []
   \<and> length (filter (\<lambda>l. l = ''    EOF'')
       (split_lines (script ''sys.prmtop'' ''sys.inpcrd'' 50))) = 9"
  using here_documents_of_lines openers_of_lines delimiters_of_lines
  by (simp only: split_lines_script [OF sys_paths_plain] simp_thms)

section \<open>Counting the solute residues\<close>

lemma filter_by_index:
  "map (\<lambda>i. xs ! i) (filter (\<lambda>i. Q (xs ! i)) [0 ..< length xs]) = filter Q xs"
proof -
  have "filter Q xs = filter Q (map (\<lambda>i. xs ! i) [0 ..< length xs])"
    by (simp add: map_nth)
  also have "\<dots> = map (\<lambda>i. xs ! i) (filter (\<lambda>i. Q (xs ! i)) [0 ..< length xs])"
    by (simp add: filter_map comp_def)
  finally show ?thesis by simp
qed

lemma filter_selected:
  "filter (\<lambda>i. i \<in> set (filter Q [0 ..< n])) [0 ..< n] = filter Q [0 ..< n]"
  by (rule filter_cong) auto

lemma atom_slice_select:
  "atom_slice t (select_not_water w t) =
     \<lparr>atoms = filter (keeps w t) (atoms t),
      residues = filter (has_atom (filter (keeps w t) (atoms t))) (residues t)\<rparr>"
proof -
  have "map (\<lambda>i. atoms t ! i)
          (filter (\<lambda>i. i \<in> set (select_not_water w t)) [0 ..< length (atoms t)]) =
        filter (keeps w t) (atoms t)"
    unfolding select_not_water_def filter_selected
    using filter_by_index [of "atoms t" "keeps w t"] by (simp add: keeps_def)
  then show ?thesis
    by (simp add: atom_slice_def Let_def)
qed

lemma find_unique:
  "distinct (map f xs) \<Longrightarrow> x \<in> set xs \<Longrightarrow> find (\<lambda>r. f r = f x) xs = Some x"
  by (induction xs) (auto simp: image_iff)

lemma valid_model_distinct:
  "valid_model t \<Longrightarrow> distinct (map sequence_index (residues t))"
  by (simp add: valid_model_def)

lemma residue_of_member:
  assumes "valid_model t" and "r \<in> set (residues t)" and "residue_index a = sequence_index r"
  shows "residue_of t a = Some r"
  using find_unique [OF valid_model_distinct [OF assms(1)] assms(2)] assms(3)
  by (simp add: residue_of_def)

lemma kept_residue:
  assumes "valid_model t" and "r \<in> set (residues t)"
  shows "has_atom (filter (keeps w t) (atoms t)) r \<longleftrightarrow> \<not> w (residue_name r)"
proof
  assume "has_atom (filter (keeps w t) (atoms t)) r"
  then obtain a where a: "a \<in> set (atoms t)" "keeps w t a" "residue_index a = sequence_index r"
    by (auto simp: has_atom_def list_ex_iff)
  from residue_of_member [OF assms a(3)] a(2) show "\<not> w (residue_name r)"
    by (simp add: keeps_def)
next
  assume nw: "\<not> w (residue_name r)"
  from assms have "has_atom (atoms t) r"
    by (simp add: valid_model_def list_all_iff)
  then obtain a where a: "a \<in> set (atoms t)" "residue_index a = sequence_index r"
    by (auto simp: has_atom_def list_ex_iff)
  from residue_of_member [OF assms a(2)] nw have "keeps w t a"
    by (simp add: keeps_def)
  with a show "has_atom (filter (keeps w t) (atoms t)) r"
    by (auto simp: has_atom_def list_ex_iff)
qed

lemma solute_residues:
  assumes "valid_model t"
  shows "residues (atom_slice t (select_not_water w t)) =
         filter (\<lambda>r. \<not> w (residue_name r)) (residues t)"
proof -
  have "filter (has_atom (filter (keeps w t) (atoms t))) (residues t) =
        filter (\<lambda>r. \<not> w (residue_name r)) (residues t)"
    by (rule filter_cong [OF refl]) (rule kept_residue [OF assms])
  then show ?thesis
    by (simp add: atom_slice_select)
qed

text \<open>
  C1. For every structural model that meets the invariant of the data model, with R
  residues of which W are classified as water, slicing the model to the atoms of the
  \<open>not water\<close> selection yields a model of exactly R - W residues (and W is at most R,
  so the difference is the one of the integers).
\<close>

theorem non_water_residue_count:
  assumes "valid_model t"
  shows "n_residues (atom_slice t (select_not_water w t)) = n_residues t - n_water w t
         \<and> n_water w t \<le> n_residues t"
proof -
  have "length (filter (\<lambda>r. w (residue_name r)) (residues t)) +
        length (filter (\<lambda>r. \<not> w (residue_name r)) (residues t)) = length (residues t)"
    by (rule sum_length_filter_compl)
  then show ?thesis
    by (simp add: n_residues_def n_water_def solute_residues [OF assms])
qed

theorem non_water_residue_count_witness:
  "valid_model model_a \<and> n_residues model_a = 3 \<and> n_water named_wat model_a = 1 \<and>
   n_residues (atom_slice model_a (select_not_water named_wat model_a)) = 2"
proof -
  have v: "valid_model model_a"
    by code_simp
  have r: "n_residues model_a = 3" and w: "n_water named_wat model_a = 1"
    by code_simp+
  from non_water_residue_count [OF v, of named_wat] r w v show ?thesis
    by simp
qed

section \<open>The command line and the run\<close>

lemma consume_without_inpcrd:
  assumes "set ws \<inter> {''--version'', ''-h'', ''--help'', ''-i'', ''--inpcrd''} = {}"
  shows "\<exists>err. consume None p ex ws = Usage_error err"
  using assms
proof (induction ws arbitrary: p ex rule: measure_induct_rule [where f = length])
  case (less ws)
  show ?case
  proof (cases ws)
    case Nil
    then show ?thesis by (cases p) simp_all
  next
    case (Cons w ws')
    with less.prems have w: "w \<noteq> ''--version''" "w \<noteq> ''-h''" "w \<noteq> ''--help''"
        "w \<noteq> ''-i''" "w \<noteq> ''--inpcrd''"
      and rest: "set ws' \<inter> {''--version'', ''-h'', ''--help'', ''-i'', ''--inpcrd''} = {}"
      by auto
    show ?thesis
    proof (cases "w = ''-p'' \<or> w = ''--prmtop''")
      case False
      with w have "consume None p ex ws = consume None p (ex @ [w]) ws'"
        unfolding Cons by (simp only: consume.simps if_False simp_thms)
      moreover have "\<exists>err. consume None p (ex @ [w]) ws' = Usage_error err"
        using rest by (intro less.IH) (simp add: Cons)
      ultimately show ?thesis by simp
    next
      case True
      then have step: "consume None p ex ws =
          (case ws' of
             [] \<Rightarrow> Usage_error (Expected_one_argument ''-p/--prmtop'')
           | v # ws'' \<Rightarrow>
               if looks_like_option v then Usage_error (Expected_one_argument ''-p/--prmtop'')
               else consume None (Some v) ex ws'')"
        using w unfolding Cons by (simp only: consume.simps if_False if_True simp_thms)
      show ?thesis
      proof (cases ws')
        case Nil
        with step show ?thesis by simp
      next
        case (Cons v ws'')
        show ?thesis
        proof (cases "looks_like_option v")
          case True
          with step Cons show ?thesis by simp
        next
          case False
          have "set ws'' \<inter> {''--version'', ''-h'', ''--help'', ''-i'', ''--inpcrd''} = {}"
            using rest Cons by auto
          then have "\<exists>err. consume None (Some v) ex ws'' = Usage_error err"
            by (intro less.IH) (simp add: Cons \<open>ws = w # ws'\<close>)
          with step Cons False show ?thesis by simp
        qed
      qed
    qed
  qed
qed

lemma consume_without_prmtop:
  assumes "set ws \<inter> {''--version'', ''-h'', ''--help'', ''-p'', ''--prmtop''} = {}"
  shows "\<exists>err. consume i None ex ws = Usage_error err"
  using assms
proof (induction ws arbitrary: i ex rule: measure_induct_rule [where f = length])
  case (less ws)
  show ?case
  proof (cases ws)
    case Nil
    then show ?thesis by (cases i) simp_all
  next
    case (Cons w ws')
    with less.prems have w: "w \<noteq> ''--version''" "w \<noteq> ''-h''" "w \<noteq> ''--help''"
        "w \<noteq> ''-p''" "w \<noteq> ''--prmtop''"
      and rest: "set ws' \<inter> {''--version'', ''-h'', ''--help'', ''-p'', ''--prmtop''} = {}"
      by auto
    show ?thesis
    proof (cases "w = ''-i'' \<or> w = ''--inpcrd''")
      case False
      with w have "consume i None ex ws = consume i None (ex @ [w]) ws'"
        unfolding Cons by (simp only: consume.simps if_False simp_thms)
      moreover have "\<exists>err. consume i None (ex @ [w]) ws' = Usage_error err"
        using rest by (intro less.IH) (simp add: Cons)
      ultimately show ?thesis by simp
    next
      case True
      then have step: "consume i None ex ws =
          (case ws' of
             [] \<Rightarrow> Usage_error (Expected_one_argument ''-i/--inpcrd'')
           | v # ws'' \<Rightarrow>
               if looks_like_option v then Usage_error (Expected_one_argument ''-i/--inpcrd'')
               else consume (Some v) None ex ws'')"
        using w unfolding Cons by (simp only: consume.simps if_False if_True simp_thms)
      show ?thesis
      proof (cases ws')
        case Nil
        with step show ?thesis by simp
      next
        case (Cons v ws'')
        show ?thesis
        proof (cases "looks_like_option v")
          case True
          with step Cons show ?thesis by simp
        next
          case False
          have "set ws'' \<inter> {''--version'', ''-h'', ''--help'', ''-p'', ''--prmtop''} = {}"
            using rest Cons by auto
          then have "\<exists>err. consume (Some v) None ex ws'' = Usage_error err"
            by (intro less.IH) (simp add: Cons \<open>ws = w # ws'\<close>)
          with step Cons False show ?thesis by simp
        qed
      qed
    qed
  qed
qed

text \<open>
  C7. Invoked with the \<open>--version\<close> flag (as the first word of a command line whose
  options are written out in full), the program prints the version string \<open>1.0.0\<close> on
  a line of its own and exits with status 0, and the structure loader is never called.
\<close>

theorem version_flag:
  "full_words rest \<Longrightarrow>
   mesmy_cli e (''--version'' # rest) =
     \<lparr>out = Stdout_text (''1.0.0'' @ [newline]), exit_status = 0, loads = []\<rparr>"
  by (simp add: mesmy_cli_def parse_args_def version_def)

theorem version_flag_witness:
  "full_words [''-p'', ''sys.prmtop''] \<and>
   mesmy_cli world_a [''--version'', ''-p'', ''sys.prmtop''] =
     \<lparr>out = Stdout_text (''1.0.0'' @ [newline]), exit_status = 0, loads = []\<rparr>"
proof -
  have f: "full_words [''-p'', ''sys.prmtop'']"
    by code_simp
  from version_flag [OF f, of world_a] f show ?thesis
    by simp
qed

text \<open>
  C8 as stated fails: the command line \<open>--version\<close> has neither \<open>-i\<close> nor \<open>--inpcrd\<close>,
  and the run prints the version and exits with status 0. The version action leaves
  the parser before it checks the required options.
\<close>

theorem missing_flag_counterexample:
  "''-i'' \<notin> set [''--version''] \<and> ''--inpcrd'' \<notin> set [''--version''] \<and>
   mesmy_cli world_a [''--version''] =
     \<lparr>out = Stdout_text (''1.0.0'' @ [newline]), exit_status = 0, loads = []\<rparr>"
  by (simp add: mesmy_cli_def parse_args_def version_def)

text \<open>
  C8, amended. When a required option is missing from a command line that asks for
  neither the version nor the help text (its options written out in full), the run ends
  in the argument parser: a usage diagnostic on standard error, exit status 2, and no
  call of the structure loader.
\<close>

theorem missing_required_flag:
  assumes "full_words argv"
    and "''--version'' \<notin> set argv" and "''-h'' \<notin> set argv" and "''--help'' \<notin> set argv"
    and "(''-i'' \<notin> set argv \<and> ''--inpcrd'' \<notin> set argv) \<or>
         (''-p'' \<notin> set argv \<and> ''--prmtop'' \<notin> set argv)"
  shows "\<exists>err. mesmy_cli e argv = \<lparr>out = Stderr_usage err, exit_status = 2, loads = []\<rparr>"
proof -
  from assms(5) have "\<exists>err. parse_args argv = Usage_error err"
  proof
    assume "''-i'' \<notin> set argv \<and> ''--inpcrd'' \<notin> set argv"
    with assms(2-4)
    have "set argv \<inter> {''--version'', ''-h'', ''--help'', ''-i'', ''--inpcrd''} = {}"
      by simp
    then show ?thesis
      unfolding parse_args_def by (rule consume_without_inpcrd)
  next
    assume "''-p'' \<notin> set argv \<and> ''--prmtop'' \<notin> set argv"
    with assms(2-4)
    have "set argv \<inter> {''--version'', ''-h'', ''--help'', ''-p'', ''--prmtop''} = {}"
      by simp
    then show ?thesis
      unfolding parse_args_def by (rule consume_without_prmtop)
  qed
  then show ?thesis
    by (auto simp: mesmy_cli_def)
qed

theorem missing_required_flag_witness:
  "full_words [''-p'', ''sys.prmtop''] \<and>
   mesmy_cli world_a [''-p'', ''sys.prmtop''] =
     \<lparr>out = Stderr_usage (Missing_required [''-i/--inpcrd'']), exit_status = 2, loads = []\<rparr>"
proof -
  have f: "full_words [''-p'', ''sys.prmtop'']"
    by code_simp
  have "\<exists>err. mesmy_cli world_a [''-p'', ''sys.prmtop''] =
          \<lparr>out = Stderr_usage err, exit_status = 2, loads = []\<rparr>"
    by (rule missing_required_flag [OF f]) simp_all
  then have "exit_status (mesmy_cli world_a [''-p'', ''sys.prmtop'']) = 2"
    by auto
  moreover have "mesmy_cli world_a [''-p'', ''sys.prmtop''] =
     \<lparr>out = Stderr_usage (Missing_required [''-i/--inpcrd'']), exit_status = 2, loads = []\<rparr>"
    by (simp add: mesmy_cli_def parse_args_def looks_like_option_def starts_with_def)
  ultimately show ?thesis
    using f by simp
qed

text \<open>
  C10. The printed script depends on the loaded structure only through the count of its
  non-water residues: two worlds whose structure files give the same count print, for
  the same command line, the same bytes (and end with the same status after the same
  call of the loader).
\<close>

theorem output_depends_on_count_only:
  assumes "parse_args argv = Namespace a"
    and "load e1 (inpcrd a) (prmtop a) = Inr t1"
    and "load e2 (inpcrd a) (prmtop a) = Inr t2"
    and "n_residues (atom_slice t1 (select_not_water (is_water e1) t1)) =
         n_residues (atom_slice t2 (select_not_water (is_water e2) t2))"
  shows "mesmy_cli e1 argv = mesmy_cli e2 argv"
  using assms by (simp add: mesmy_cli_def Let_def)

theorem output_depends_on_count_only_witness:
  "model_a \<noteq> model_b \<and>
   mesmy_cli world_a [''-i'', ''sys.inpcrd'', ''-p'', ''sys.prmtop''] =
   mesmy_cli world_b [''-i'', ''sys.inpcrd'', ''-p'', ''sys.prmtop'']"
proof -
  have p: "parse_args [''-i'', ''sys.inpcrd'', ''-p'', ''sys.prmtop''] =
             Namespace \<lparr>inpcrd = ''sys.inpcrd'', prmtop = ''sys.prmtop''\<rparr>"
    by (simp add: parse_args_def looks_like_option_def starts_with_def)
  have la: "load world_a (inpcrd \<lparr>inpcrd = ''sys.inpcrd'', prmtop = ''sys.prmtop''\<rparr>)
              (prmtop \<lparr>inpcrd = ''sys.inpcrd'', prmtop = ''sys.prmtop''\<rparr>) = Inr model_a"
    by (simp add: world_a_def)
  have lb: "load world_b (inpcrd \<lparr>inpcrd = ''sys.inpcrd'', prmtop = ''sys.prmtop''\<rparr>)
              (prmtop \<lparr>inpcrd = ''sys.inpcrd'', prmtop = ''sys.prmtop''\<rparr>) = Inr model_b"
    by (simp add: world_b_def)
  have n: "n_residues (atom_slice model_a (select_not_water (is_water world_a) model_a)) =
           n_residues (atom_slice model_b (select_not_water (is_water world_b) model_b))"
    by code_simp
  have d: "model_a \<noteq> model_b"
    by (simp add: model_a_def model_b_def)
  from output_depends_on_count_only [OF p la lb n] d show ?thesis
    by simp
qed

end
